theory Spec2Isabelle
  imports Main
begin

section \<open>Python values, exceptions and the interpreter environment\<close>

text \<open>
  The driver \<^verbatim>\<open>02_generate_predicted_sedimentation_grids.py\<close> is a Python script.
  Its configuration values are dynamically typed, so they are embedded as a datatype of
  Python values. A Python \<^verbatim>\<open>float\<close> is kept opaque (the type variable \<open>'f\<close>): the
  script never computes with floats, it only converts them to text, and these
  conversions are supplied by the environment record below.
\<close>

datatype 'f py_value =
    PyNone
  | PyBool bool
  | PyInt int
  | PyFloat 'f
  | PyStr string

text \<open>
  Exceptions the script can meet. \<open>Unsupported\<close> is not a Python exception: it marks a
  format string outside the fragment of \<^verbatim>\<open>str.format\<close> that is modelled here.
\<close>

datatype py_error =
    TypeError
  | ValueError
  | IndexError
  | OverflowError
  | NameError
  | FileExistsError
  | KeyboardInterrupt
  | OtherError string
  | Unsupported

text \<open>
  One work item: the argument tuple the script hands to
  \<^verbatim>\<open>generate_predicted_sedimentation_grid\<close> (lines 95-106 and 279-291).
\<close>

record 'f job =
  time :: int
  predict_sedimentation_script :: string
  scale_sedimentation_rate :: "'f py_value"
  mean_age :: "'f py_value"
  mean_distance :: "'f py_value"
  variance_age :: "'f py_value"
  variance_distance :: "'f py_value"
  max_age :: "'f py_value"
  max_distance :: "'f py_value"
  age_distance_polynomial_coefficients :: "'f py_value list"
  output_file_basename_prefix :: string

text \<open>
  What the script takes from the Python run time and the operating system:
  the text of a float (\<^verbatim>\<open>str(x)\<close>), its fixed-point text (\<^verbatim>\<open>format(x, '.Nf')\<close>), its
  truth value, the float a source literal denotes, \<^verbatim>\<open>sys.executable\<close>,
  \<^verbatim>\<open>multiprocessing.cpu_count()\<close> (\<open>None\<close> when it raises NotImplementedError), a
  failure of \<^verbatim>\<open>os.mkdir\<close> for a reason other than the path existing, the outcome of
  \<^verbatim>\<open>call_system_command\<close> on a command line, the outcome of creating a worker pool, and
  the outcome of waiting for the mapped jobs of a pool (\<open>None\<close> is normal completion).
\<close>

record 'f py_env =
  str_float :: "'f \<Rightarrow> string"
  format_float :: "nat \<Rightarrow> 'f \<Rightarrow> string"
  float_nonzero :: "'f \<Rightarrow> bool"
  float_lit :: "string \<Rightarrow> 'f"
  sys_executable :: string
  cpu_count :: "nat option"
  mkdir_failure :: "string \<Rightarrow> py_error option"
  call_system_command :: "string list \<Rightarrow> py_error option"
  pool_create :: "int \<Rightarrow> py_error option"
  pool_get :: "'f job list \<Rightarrow> py_error option"

subsection \<open>Decimal text of integers\<close>

definition digit_char :: "nat \<Rightarrow> char" where
  "digit_char d = ''0123456789'' ! d"

function str_nat :: "nat \<Rightarrow> string" where
  "str_nat n = (if n < 10 then [digit_char n] else str_nat (n div 10) @ [digit_char (n mod 10)])"
  by pat_completeness auto
termination
  by (relation "measure id") auto

declare str_nat.simps [simp del]

definition str_int :: "int \<Rightarrow> string" where
  "str_int i = (if i < 0 then CHR ''-'' # str_nat (nat (- i)) else str_nat (nat i))"

subsection \<open>Conversion of an integer to a float\<close>

text \<open>
  \<^verbatim>\<open>format(i, '.Nf')\<close> on an \<^verbatim>\<open>int\<close> first converts it to a double: the magnitude is
  rounded to 53 significant bits, ties to even, and a result of \<open>2^1024\<close> or more raises
  OverflowError. The double obtained is integral, so it is represented by its integer value.
\<close>

function bit_length :: "nat \<Rightarrow> nat" where
  "bit_length n = (if n = 0 then 0 else Suc (bit_length (n div 2)))"
  by pat_completeness auto
termination
  by (relation "measure id") auto

declare bit_length.simps [simp del]

definition round_to_double :: "nat \<Rightarrow> nat" where
  "round_to_double m =
     (let n = bit_length m in
      if n \<le> 53 then m
      else
        let sh = n - 53;
            q = m div 2 ^ sh;
            r = m mod 2 ^ sh;
            half = 2 ^ (sh - 1);
            q' = (if half < r \<or> (r = half \<and> odd q) then q + 1 else q)
        in q' * 2 ^ sh)"

definition float_of_int :: "int \<Rightarrow> py_error + int" where
  "float_of_int i =
     (let v = round_to_double (nat \<bar>i\<bar>) in
      if 2 ^ 1024 \<le> v then Inl OverflowError
      else Inr (if i < 0 then - int v else int v))"

subsection \<open>\<^verbatim>\<open>str\<close>, truth values and \<^verbatim>\<open>isinstance\<close>\<close>

definition py_str :: "'f py_env \<Rightarrow> 'f py_value \<Rightarrow> string" where
  "py_str env v =
     (case v of
        PyNone \<Rightarrow> ''None''
      | PyBool b \<Rightarrow> (if b then ''True'' else ''False'')
      | PyInt i \<Rightarrow> str_int i
      | PyFloat x \<Rightarrow> str_float env x
      | PyStr s \<Rightarrow> s)"

definition truthy :: "'f py_env \<Rightarrow> 'f py_value \<Rightarrow> bool" where
  "truthy env v =
     (case v of
        PyNone \<Rightarrow> False
      | PyBool b \<Rightarrow> b
      | PyInt i \<Rightarrow> i \<noteq> 0
      | PyFloat x \<Rightarrow> float_nonzero env x
      | PyStr s \<Rightarrow> s \<noteq> [])"

definition isinstance_bool :: "'f py_value \<Rightarrow> bool" where
  "isinstance_bool v = (case v of PyBool _ \<Rightarrow> True | _ \<Rightarrow> False)"

text \<open>\<^verbatim>\<open>bool\<close> is a subclass of \<^verbatim>\<open>int\<close>.\<close>

definition isinstance_int :: "'f py_value \<Rightarrow> bool" where
  "isinstance_int v = (case v of PyBool _ \<Rightarrow> True | PyInt _ \<Rightarrow> True | _ \<Rightarrow> False)"

definition int_value :: "'f py_value \<Rightarrow> int" where
  "int_value v = (case v of PyBool b \<Rightarrow> (if b then 1 else 0) | PyInt i \<Rightarrow> i | _ \<Rightarrow> 0)"

subsection \<open>\<^verbatim>\<open>str.format\<close>\<close>

text \<open>
  The fragment of \<^verbatim>\<open>str.format\<close> the script uses: literal text, the escapes
  \<^verbatim>\<open>{{\<close> and \<^verbatim>\<open>}}\<close>, and replacement fields with an empty or numeric field name and
  either no format specification or one of the shape \<^verbatim>\<open>.Nf\<close>. Anything else gives
  \<open>Unsupported\<close>.
\<close>

definition is_digit :: "char \<Rightarrow> bool" where
  "is_digit c = (c \<in> set ''0123456789'')"

definition digit_value :: "char \<Rightarrow> nat" where
  "digit_value c = length (takeWhile (\<lambda>d. d \<noteq> c) ''0123456789'')"

definition nat_of_digits :: "string \<Rightarrow> nat" where
  "nat_of_digits s = foldl (\<lambda>a c. 10 * a + digit_value c) 0 s"

text \<open>The precision of a specification \<^verbatim>\<open>.Nf\<close>, if it has that shape.\<close>

definition fixed_precision :: "string \<Rightarrow> nat option" where
  "fixed_precision spec =
     (case spec of
        [] \<Rightarrow> None
      | c # cs \<Rightarrow>
          if c = CHR ''.'' \<and> cs \<noteq> [] \<and> last cs = CHR ''f'' \<and> butlast cs \<noteq> []
             \<and> list_all is_digit (butlast cs)
          then Some (nat_of_digits (butlast cs)) else None)"

definition format_fixed_int :: "nat \<Rightarrow> int \<Rightarrow> py_error + string" where
  "format_fixed_int n i =
     (case float_of_int i of
        Inl e \<Rightarrow> Inl e
      | Inr v \<Rightarrow> Inr (str_int v @ (if n = 0 then [] else CHR ''.'' # replicate n CHR ''0'')))"

definition format_value :: "'f py_env \<Rightarrow> string \<Rightarrow> 'f py_value \<Rightarrow> py_error + string" where
  "format_value env spec v =
     (if spec = [] then Inr (py_str env v)
      else
        case v of
          PyNone \<Rightarrow> Inl TypeError
        | PyStr s \<Rightarrow> (case fixed_precision spec of None \<Rightarrow> Inl Unsupported | Some n \<Rightarrow> Inl ValueError)
        | PyBool b \<Rightarrow>
            (case fixed_precision spec of
               None \<Rightarrow> Inl Unsupported
             | Some n \<Rightarrow> if 2147483647 < n then Inl Unsupported
                         else format_fixed_int n (if b then 1 else 0))
        | PyInt i \<Rightarrow>
            (case fixed_precision spec of
               None \<Rightarrow> Inl Unsupported
             | Some n \<Rightarrow> if 2147483647 < n then Inl Unsupported else format_fixed_int n i)
        | PyFloat x \<Rightarrow>
            (case fixed_precision spec of
               None \<Rightarrow> Inl Unsupported
             | Some n \<Rightarrow> if 2147483647 < n then Inl Unsupported
                         else Inr (format_float env n x)))"

text \<open>Field numbering: not yet decided, automatic (with the next index), or manual.\<close>

datatype numbering = Unset | Auto nat | Manual

text \<open>
  A replacement field \<open>fld\<close> (the text between the braces): the argument index it
  selects and the new numbering state, then the formatted argument.
\<close>

definition format_field ::
  "'f py_env \<Rightarrow> 'f py_value list \<Rightarrow> numbering \<Rightarrow> string \<Rightarrow> py_error + (string \<times> numbering)" where
  "format_field env args nb fld =
     (let name = takeWhile (\<lambda>c. c \<noteq> CHR '':'') fld;
          spec = drop 1 (dropWhile (\<lambda>c. c \<noteq> CHR '':'') fld)
      in
        if \<not> list_all is_digit name then Inl Unsupported
        else
          case (if name = []
                then (case nb of
                        Unset \<Rightarrow> Inr (0, Auto 1)
                      | Auto k \<Rightarrow> Inr (k, Auto (Suc k))
                      | Manual \<Rightarrow> Inl ValueError)
                else (case nb of
                        Auto k \<Rightarrow> Inl ValueError
                      | _ \<Rightarrow> Inr (nat_of_digits name, Manual))) of
            Inl e \<Rightarrow> Inl e
          | Inr (idx, nb') \<Rightarrow>
              if length args \<le> idx then Inl IndexError
              else (case format_value env spec (args ! idx) of
                      Inl e \<Rightarrow> Inl e
                    | Inr s \<Rightarrow> Inr (s, nb')))"

text \<open>
  The scanner reads the format string from left to right, as the interpreter does, so
  that the first error met is the one raised. Its states: in literal text, after an
  opening brace, inside a field (with the text read so far), after a closing brace.
\<close>

datatype scan = Text | Opened | InField string | Closed

fun format_scan ::
  "'f py_env \<Rightarrow> 'f py_value list \<Rightarrow> scan \<Rightarrow> numbering \<Rightarrow> string \<Rightarrow> string \<Rightarrow> py_error + string" where
  "format_scan env args sc nb out [] =
     (case sc of Text \<Rightarrow> Inr out | _ \<Rightarrow> Inl ValueError)"
| "format_scan env args sc nb out (c # cs) =
     (case sc of
        Text \<Rightarrow>
          if c = CHR ''{'' then format_scan env args Opened nb out cs
          else if c = CHR ''}'' then format_scan env args Closed nb out cs
          else format_scan env args Text nb (out @ [c]) cs
      | Opened \<Rightarrow>
          if c = CHR ''{'' then format_scan env args Text nb (out @ [c]) cs
          else if c = CHR ''}'' then
            (case format_field env args nb [] of
               Inl e \<Rightarrow> Inl e
             | Inr (s, nb') \<Rightarrow> format_scan env args Text nb' (out @ s) cs)
          else format_scan env args (InField [c]) nb out cs
      | InField fld \<Rightarrow>
          if c = CHR ''{'' then Inl Unsupported
          else if c = CHR ''}'' then
            (case format_field env args nb fld of
               Inl e \<Rightarrow> Inl e
             | Inr (s, nb') \<Rightarrow> format_scan env args Text nb' (out @ s) cs)
          else format_scan env args (InField (fld @ [c])) nb out cs
      | Closed \<Rightarrow>
          if c = CHR ''}'' then format_scan env args Text nb (out @ [c]) cs
          else Inl ValueError)"

definition py_format :: "'f py_env \<Rightarrow> string \<Rightarrow> 'f py_value list \<Rightarrow> py_error + string" where
  "py_format env fmt args = format_scan env args Text Unset [] fmt"

section \<open>The operating system: paths and directories\<close>

text \<open>\<^verbatim>\<open>os.path.join\<close> of two components, as \<^verbatim>\<open>posixpath\<close> defines it.\<close>

definition path_join :: "string \<Rightarrow> string \<Rightarrow> string" where
  "path_join a b =
     (if b \<noteq> [] \<and> hd b = CHR ''/'' then b
      else if a = [] \<or> last a = CHR ''/'' then a @ b
      else a @ ''/'' @ b)"

text \<open>
  What the script does to the outside world, in order: messages printed, directories
  created, external commands run (sequential mode), and the life cycle of worker pools
  (a pool is named by its creation index).
\<close>

datatype 'f event =
    Print string
  | Mkdir string
  | Call "string list"
  | PoolCreate nat int
  | MapAsync nat "'f job list"
  | PoolClose nat
  | PoolJoin nat

text \<open>
  The state the script runs in: the paths that exist, the events so far, the binding of
  the module-level variable \<^verbatim>\<open>pool\<close> (\<open>None\<close> while unbound) and the number of pools
  created so far.
\<close>

record 'f world =
  paths :: "string set"
  log :: "'f event list"
  pool :: "nat option"
  pools_created :: nat

text \<open>A statement ends normally (\<open>None\<close>) or raises, and leaves a new state.\<close>

type_synonym 'f outcome = "py_error option \<times> 'f world"

definition emit :: "'f event \<Rightarrow> 'f world \<Rightarrow> 'f world" where
  "emit e w = w\<lparr>log := log w @ [e]\<rparr>"

text \<open>\<^verbatim>\<open>os.mkdir\<close>: fails on an existing path, or when the environment refuses.\<close>

definition os_mkdir :: "'f py_env \<Rightarrow> string \<Rightarrow> 'f world \<Rightarrow> 'f outcome" where
  "os_mkdir env p w =
     (if p \<in> paths w then (Some FileExistsError, w)
      else case mkdir_failure env p of
             Some e \<Rightarrow> (Some e, w)
           | None \<Rightarrow> (None, emit (Mkdir p) (w\<lparr>paths := insert p (paths w)\<rparr>)))"

text \<open>
  Lines 89-91, 253-255 and 352-354: \<^verbatim>\<open>if not os.path.exists(d): print(...); os.mkdir(d)\<close>.
\<close>

definition ensure_dir :: "'f py_env \<Rightarrow> string \<Rightarrow> 'f world \<Rightarrow> 'f outcome" where
  "ensure_dir env d w =
     (if d \<notin> paths w
      then os_mkdir env d (emit (Print (d @ '' does not exist, creating now... '')) w)
      else (None, w))"

section \<open>The user input and the time range\<close>

text \<open>Lines 50-81, the block between BEGIN USER INPUT and END USER INPUT.\<close>

record 'f config =
  use_all_cpus :: "'f py_value"
  output_base_dir :: string
  min_time :: int
  max_time :: int
  time_step :: int
  generate_sediment_thickness_grids :: bool
  generate_sedimentation_rate_grids :: bool
  distance_grid_spacing :: "'f py_value"
  grid_spacing :: "'f py_value"
  sediment_output_sub_dir :: string
  age_grid_filenames_format :: string

text \<open>The values the source file sets.\<close>

definition source_config :: "'f py_env \<Rightarrow> 'f config" where
  "source_config env =
     \<lparr> use_all_cpus = PyInt 4,
       output_base_dir = ''.'',
       min_time = 0,
       max_time = 250,
       time_step = 1,
       generate_sediment_thickness_grids = True,
       generate_sedimentation_rate_grids = True,
       distance_grid_spacing = PyFloat (float_lit env ''0.1''),
       grid_spacing = PyFloat (float_lit env ''0.1''),
       sediment_output_sub_dir = ''sedimentation_output'',
       age_grid_filenames_format =
         ''/Users/nickywright/Data/Age/Muller2019-Young2019-Cao2020_Agegrids/Muller2019-Young2019-Cao2020_netCDF/Muller2019-Young2019-Cao2020_AgeGrid-{:.0f}.nc'' \<rparr>"

text \<open>Line 70: the distance grid template, with the base directory and the spacing filled in.\<close>

definition distance_grid_filenames_format :: "'f py_env \<Rightarrow> 'f config \<Rightarrow> py_error + string" where
  "distance_grid_filenames_format env cfg =
     py_format env ''{0}/distances_{1:.1f}d/mean_distance_{1:.1f}d_{{:.1f}}.nc''
       [PyStr (output_base_dir cfg), distance_grid_spacing cfg]"

text \<open>Python's \<^verbatim>\<open>range(start, stop, step)\<close> on integers, as the list of its items.\<close>

function range_up :: "int \<Rightarrow> int \<Rightarrow> int \<Rightarrow> int list" where
  "range_up i stop step = (if 0 < step \<and> i < stop then i # range_up (i + step) stop step else [])"
  by pat_completeness auto
termination
  by (relation "measure (\<lambda>(i, stop, step). nat (stop - i))") auto

declare range_up.simps [simp del]

function range_down :: "int \<Rightarrow> int \<Rightarrow> int \<Rightarrow> int list" where
  "range_down i stop step = (if step < 0 \<and> stop < i then i # range_down (i + step) stop step else [])"
  by pat_completeness auto
termination
  by (relation "measure (\<lambda>(i, stop, step). nat (i - stop))") auto

declare range_down.simps [simp del]

definition py_range :: "int \<Rightarrow> int \<Rightarrow> int \<Rightarrow> py_error + int list" where
  "py_range start stop step =
     (if step = 0 then Inl ValueError
      else if 0 < step then Inr (range_up start stop step)
      else Inr (range_down start stop step))"

text \<open>Line 186: \<^verbatim>\<open>times = range(min_time, max_time + 1, time_step)\<close>.\<close>

definition times :: "'f config \<Rightarrow> py_error + int list" where
  "times cfg = py_range (min_time cfg) (max_time cfg + 1) (time_step cfg)"

text \<open>
  The number of items of a range with a positive step, in closed form. It is not part of
  the script; the facts about \<open>range_up\<close> below are stated with it.
\<close>

definition range_len :: "int \<Rightarrow> int \<Rightarrow> int \<Rightarrow> nat" where
  "range_len i stop step = nat ((stop - i + step - 1) div step)"

section \<open>The command builder\<close>

text \<open>
  Lines 108-138 of \<^verbatim>\<open>generate_predicted_sedimentation_grid\<close>: the list literal, then
  the three \<^verbatim>\<open>extend\<close> calls. The module-level names the function reads
  (\<^verbatim>\<open>distance_grid_filenames_format\<close>, \<^verbatim>\<open>age_grid_filenames_format\<close>, \<^verbatim>\<open>grid_spacing\<close>)
  come from the configuration and from \<open>dfmt\<close>, the value line 70 computed. A format
  call that raises ends the function there.
\<close>

definition command_line :: "'f py_env \<Rightarrow> 'f config \<Rightarrow> string \<Rightarrow> 'f job \<Rightarrow> py_error + string list" where
  "command_line env cfg dfmt j =
     (case py_format env dfmt [PyInt (time j)] of
        Inl e \<Rightarrow> Inl e
      | Inr distance_grid \<Rightarrow>
     (case py_format env (age_grid_filenames_format cfg) [PyInt (time j)] of
        Inl e \<Rightarrow> Inl e
      | Inr age_grid \<Rightarrow>
          let c0 = [sys_executable env,
                    predict_sedimentation_script j,
                    ''-d'',
                    distance_grid,
                    ''-g'',
                    age_grid,
                    ''-i'',
                    py_str env (grid_spacing cfg),
                    ''-w'',
                    ''-m'',
                    py_str env (mean_age j),
                    py_str env (mean_distance j),
                    ''-v'',
                    py_str env (variance_age j),
                    py_str env (variance_distance j),
                    ''-x'',
                    py_str env (max_age j),
                    py_str env (max_distance j),
                    ''-f''];
              c1 = c0 @ map (py_str env) (age_distance_polynomial_coefficients j);
              c2 = (if scale_sedimentation_rate j \<noteq> PyNone
                    then c1 @ [''-s'', py_str env (scale_sedimentation_rate j)]
                    else c1)
          in
            (case py_format env ''{}_{:.1f}'' [PyStr (output_file_basename_prefix j), PyInt (time j)] of
               Inl e \<Rightarrow> Inl e
             | Inr output_filename_prefix \<Rightarrow> Inr (c2 @ [''--'', output_filename_prefix]))))"

text \<open>Line 146: the command is run; the function ends as \<^verbatim>\<open>call_system_command\<close> does.\<close>

definition generate_predicted_sedimentation_grid ::
  "'f py_env \<Rightarrow> 'f config \<Rightarrow> string \<Rightarrow> 'f job \<Rightarrow> 'f world \<Rightarrow> 'f outcome" where
  "generate_predicted_sedimentation_grid env cfg dfmt j w =
     (case command_line env cfg dfmt j of
        Inl e \<Rightarrow> (Some e, w)
      | Inr c \<Rightarrow> (call_system_command env c, emit (Call c) w))"

text \<open>
  Lines 151-155: the single-argument function the pool workers run. It ends as the
  builder does, except that a KeyboardInterrupt is dropped.
\<close>

definition generate_predicted_sedimentation_grid_parallel_pool_function ::
  "'f py_env \<Rightarrow> 'f config \<Rightarrow> string \<Rightarrow> 'f job \<Rightarrow> 'f world \<Rightarrow> 'f outcome" where
  "generate_predicted_sedimentation_grid_parallel_pool_function env cfg dfmt j w =
     (case generate_predicted_sedimentation_grid env cfg dfmt j w of
        (r, w1) \<Rightarrow> (if r = Some KeyboardInterrupt then None else r, w1))"

section \<open>The two modes\<close>

text \<open>
  The blocks of lines 233-315 (rate) and 333-413 (thickness) are the same statements
  with different constants. The constants are gathered in a record; the float literals
  are denoted through \<open>float_lit\<close>.
\<close>

record 'f mode_params =
  mp_script :: string
  mp_scale :: "'f py_value"
  mp_mean_age :: "'f py_value"
  mp_mean_distance :: "'f py_value"
  mp_variance_age :: "'f py_value"
  mp_variance_distance :: "'f py_value"
  mp_max_age :: "'f py_value"
  mp_max_distance :: "'f py_value"
  mp_coefficients :: "'f py_value list"
  mp_sub_dir :: string
  mp_basename_format :: string
  mp_banner :: string

definition rate_params :: "'f py_env \<Rightarrow> 'f mode_params" where
  "rate_params env =
     \<lparr> mp_script = ''predict_sedimentation_rate.py'',
       mp_scale = PyFloat (float_lit env ''10.0''),
       mp_mean_age = PyFloat (float_lit env ''61.17716597''),
       mp_mean_distance = PyFloat (float_lit env ''1835.10750592''),
       mp_variance_age = PyFloat (float_lit env ''1934.78513885''),
       mp_variance_distance = PyFloat (float_lit env ''1207587.8548734''),
       mp_max_age = PyFloat (float_lit env ''191.87276''),
       mp_max_distance = PyFloat (float_lit env ''3000.''),
       mp_coefficients = map (\<lambda>l. PyFloat (float_lit env l))
         [''1.350082937086441'', ''-0.26385415'', ''-0.07516542'', ''0.39197707'', ''-0.15475392'',
          ''0.'', ''-0.13196083'', ''0.02481208'', ''-0.'', ''-0.47570021''],
       mp_sub_dir = ''predicted_rate'',
       mp_basename_format = ''sed_rate_{:.1f}d'',
       mp_banner = ''Generating predicted sedimentation rate grids...'' \<rparr>"

definition thickness_params :: "'f py_env \<Rightarrow> 'f mode_params" where
  "thickness_params env =
     \<lparr> mp_script = ''predict_sediment_thickness.py'',
       mp_scale = PyNone,
       mp_mean_age = PyFloat (float_lit env ''61.18406823''),
       mp_mean_distance = PyFloat (float_lit env ''1835.28118479''),
       mp_variance_age = PyFloat (float_lit env ''1934.6999014''),
       mp_variance_distance = PyFloat (float_lit env ''1207521.8995806''),
       mp_max_age = PyFloat (float_lit env ''191.87276''),
       mp_max_distance = PyFloat (float_lit env ''3000.''),
       mp_coefficients = map (\<lambda>l. PyFloat (float_lit env l))
         [''5.441401190368497'', ''0.46893096'', ''-0.07320928'', ''-0.24077496'', ''-0.10840657'',
          ''0.00381672'', ''0.06831728'', ''0.01179914'', ''0.01158149'', ''-0.39880562''],
       mp_sub_dir = ''predicted_thickness'',
       mp_basename_format = ''sed_thick_{:.1f}d'',
       mp_banner = ''Generating predicted sediment thickness grids...'' \<rparr>"

text \<open>Lines 249 and 348: \<^verbatim>\<open>os.path.join(output_base_dir, sediment_output_sub_dir, ...)\<close>.\<close>

definition output_dir :: "'f config \<Rightarrow> 'f mode_params \<Rightarrow> string" where
  "output_dir cfg mp =
     path_join (path_join (output_base_dir cfg) (sediment_output_sub_dir cfg)) (mp_sub_dir mp)"

text \<open>Lines 250 and 349: the output prefix shared by the jobs of a mode.\<close>

definition basename_prefix :: "'f py_env \<Rightarrow> 'f config \<Rightarrow> 'f mode_params \<Rightarrow> py_error + string" where
  "basename_prefix env cfg mp =
     (case py_format env (mp_basename_format mp) [grid_spacing cfg] of
        Inl e \<Rightarrow> Inl e
      | Inr b \<Rightarrow> Inr (path_join (output_dir cfg mp) b))"

text \<open>
  The argument tuple of one time (lines 279-291, and the call of lines 308-315).
\<close>

definition job_of :: "'f mode_params \<Rightarrow> string \<Rightarrow> int \<Rightarrow> 'f job" where
  "job_of mp prefix t =
     \<lparr> time = t,
       predict_sedimentation_script = mp_script mp,
       scale_sedimentation_rate = mp_scale mp,
       mean_age = mp_mean_age mp,
       mean_distance = mp_mean_distance mp,
       variance_age = mp_variance_age mp,
       variance_distance = mp_variance_distance mp,
       max_age = mp_max_age mp,
       max_distance = mp_max_distance mp,
       age_distance_polynomial_coefficients = mp_coefficients mp,
       output_file_basename_prefix = prefix \<rparr>"

definition jobs_of :: "'f mode_params \<Rightarrow> string \<Rightarrow> int list \<Rightarrow> 'f job list" where
  "jobs_of mp prefix ts = map (job_of mp prefix) ts"

section \<open>Dispatch\<close>

text \<open>
  Lines 259-271 (and 357-369). Under \<^verbatim>\<open>if use_all_cpus:\<close> the number of workers is
  resolved; the \<^verbatim>\<open>else\<close> branch is the sequential loop.
\<close>

definition num_cpus :: "'f py_env \<Rightarrow> 'f py_value \<Rightarrow> py_error + int" where
  "num_cpus env v =
     (if isinstance_bool v
      then Inr (case cpu_count env of Some n \<Rightarrow> int n | None \<Rightarrow> 1)
      else if isinstance_int v \<and> 0 < int_value v then Inr (int_value v)
      else Inl TypeError)"

datatype dispatch = Sequential | Parallel int

definition resolve_dispatch :: "'f py_env \<Rightarrow> 'f py_value \<Rightarrow> py_error + dispatch" where
  "resolve_dispatch env v =
     (if truthy env v
      then (case num_cpus env v of Inl e \<Rightarrow> Inl e | Inr n \<Rightarrow> Inr (Parallel n))
      else Inr Sequential)"

text \<open>The number of jobs that can run at the same time.\<close>

definition effective_workers :: "dispatch \<Rightarrow> int" where
  "effective_workers d = (case d of Sequential \<Rightarrow> 1 | Parallel n \<Rightarrow> n)"

text \<open>
  Lines 273-304: the body of the \<^verbatim>\<open>try\<close> creates the pool, binds \<^verbatim>\<open>pool\<close>, maps the
  jobs and waits; \<^verbatim>\<open>except KeyboardInterrupt: pass\<close> drops an interrupt; the
  \<^verbatim>\<open>finally\<close> clause reads \<^verbatim>\<open>pool\<close> (NameError while it is unbound), closes and joins it.
  \<^verbatim>\<open>close\<close> and \<^verbatim>\<open>join\<close> are taken to complete.
\<close>

definition try_body :: "'f py_env \<Rightarrow> int \<Rightarrow> 'f job list \<Rightarrow> 'f world \<Rightarrow> 'f outcome" where
  "try_body env n jobs w =
     (case pool_create env n of
        Some e \<Rightarrow> (Some e, w)
      | None \<Rightarrow>
          let p = pools_created w;
              w1 = emit (PoolCreate p n) (w\<lparr>pool := Some p, pools_created := Suc p\<rparr>);
              w2 = emit (MapAsync p jobs) w1
          in (pool_get env jobs, w2))"

definition finally_clause :: "py_error option \<Rightarrow> 'f world \<Rightarrow> 'f outcome" where
  "finally_clause pending w =
     (case pool w of
        None \<Rightarrow> (Some NameError, w)
      | Some p \<Rightarrow> (pending, emit (PoolJoin p) (emit (PoolClose p) w)))"

definition parallel_dispatch :: "'f py_env \<Rightarrow> int \<Rightarrow> 'f job list \<Rightarrow> 'f world \<Rightarrow> 'f outcome" where
  "parallel_dispatch env n jobs w =
     (case try_body env n jobs w of
        (r, w1) \<Rightarrow> finally_clause (if r = Some KeyboardInterrupt then None else r) w1)"

text \<open>Lines 307-315: the sequential loop; an exception leaves it.\<close>

fun sequential_dispatch ::
  "'f py_env \<Rightarrow> 'f config \<Rightarrow> string \<Rightarrow> 'f job list \<Rightarrow> 'f world \<Rightarrow> 'f outcome" where
  "sequential_dispatch env cfg dfmt [] w = (None, w)"
| "sequential_dispatch env cfg dfmt (j # js) w =
     (case generate_predicted_sedimentation_grid env cfg dfmt j w of
        (Some e, w1) \<Rightarrow> (Some e, w1)
      | (None, w1) \<Rightarrow> sequential_dispatch env cfg dfmt js w1)"

text \<open>One mode block, from the computation of \<^verbatim>\<open>output_dir\<close> to the end of the dispatch.\<close>

definition run_mode ::
  "'f py_env \<Rightarrow> 'f config \<Rightarrow> string \<Rightarrow> int list \<Rightarrow> 'f mode_params \<Rightarrow> 'f world \<Rightarrow> 'f outcome" where
  "run_mode env cfg dfmt ts mp w =
     (case basename_prefix env cfg mp of
        Inl e \<Rightarrow> (Some e, w)
      | Inr prefix \<Rightarrow>
     (case ensure_dir env (output_dir cfg mp) w of
        (Some e, w1) \<Rightarrow> (Some e, w1)
      | (None, w1) \<Rightarrow>
          let w2 = emit (Print (mp_banner mp)) w1 in
          if truthy env (use_all_cpus cfg) then
            (case num_cpus env (use_all_cpus cfg) of
               Inl e \<Rightarrow> (Some e, w2)
             | Inr n \<Rightarrow> parallel_dispatch env n (jobs_of mp prefix ts) w2)
          else sequential_dispatch env cfg dfmt (jobs_of mp prefix ts) w2))"

section \<open>The script\<close>

text \<open>
  The module-level statements in their order: line 70, lines 89-91, line 186, the rate
  block if enabled, the thickness block if enabled.
\<close>

definition main :: "'f py_env \<Rightarrow> 'f config \<Rightarrow> 'f world \<Rightarrow> 'f outcome" where
  "main env cfg w =
     (case distance_grid_filenames_format env cfg of
        Inl e \<Rightarrow> (Some e, w)
      | Inr dfmt \<Rightarrow>
     (case ensure_dir env (path_join (output_base_dir cfg) (sediment_output_sub_dir cfg)) w of
        (Some e, w1) \<Rightarrow> (Some e, w1)
      | (None, w1) \<Rightarrow>
     (case times cfg of
        Inl e \<Rightarrow> (Some e, w1)
      | Inr ts \<Rightarrow>
     (case (if generate_sedimentation_rate_grids cfg
            then run_mode env cfg dfmt ts (rate_params env) w1 else (None, w1)) of
        (Some e, w2) \<Rightarrow> (Some e, w2)
      | (None, w2) \<Rightarrow>
          if generate_sediment_thickness_grids cfg
          then run_mode env cfg dfmt ts (thickness_params env) w2 else (None, w2)))))"

section \<open>Observations on a run\<close>

text \<open>The external commands run so far, the jobs handed to a pool, the directories made.\<close>

definition event_call :: "'f event \<Rightarrow> string list list" where
  "event_call e = (case e of Call c \<Rightarrow> [c] | _ \<Rightarrow> [])"

definition event_jobs :: "'f event \<Rightarrow> 'f job list" where
  "event_jobs e = (case e of MapAsync p js \<Rightarrow> js | _ \<Rightarrow> [])"

definition event_mkdir :: "'f event \<Rightarrow> string list" where
  "event_mkdir e = (case e of Mkdir d \<Rightarrow> [d] | _ \<Rightarrow> [])"

definition calls :: "'f world \<Rightarrow> string list list" where
  "calls w = concat (map event_call (log w))"

definition submitted :: "'f world \<Rightarrow> 'f job list" where
  "submitted w = concat (map event_jobs (log w))"

definition mkdirs :: "'f world \<Rightarrow> string list" where
  "mkdirs w = concat (map event_mkdir (log w))"

text \<open>A text without braces is copied unchanged by \<^verbatim>\<open>str.format\<close>.\<close>

definition brace_free :: "string \<Rightarrow> bool" where
  "brace_free s = (CHR ''{'' \<notin> set s \<and> CHR ''}'' \<notin> set s)"

text \<open>
  An environment and a start state for evaluating the model on concrete inputs. A float
  stands for the text of its literal; eight cores are detected; no directory creation,
  command or pool fails. At the start only the base directory exists.
\<close>

definition test_env :: "string py_env" where
  "test_env =
     \<lparr> str_float = (\<lambda>x. x),
       format_float = (\<lambda>n x. x),
       float_nonzero = (\<lambda>x. True),
       float_lit = (\<lambda>l. l),
       sys_executable = ''/usr/bin/python3'',
       cpu_count = Some 8,
       mkdir_failure = (\<lambda>d. None),
       call_system_command = (\<lambda>c. None),
       pool_create = (\<lambda>n. None),
       pool_get = (\<lambda>js. None) \<rparr>"

definition fresh_world :: "string world" where
  "fresh_world = \<lparr> paths = {''.''}, log = [], pool = None, pools_created = 0 \<rparr>"

text \<open>A thickness job at time 2 under the source configuration, and its command line.\<close>

definition test_job :: "int \<Rightarrow> string job" where
  "test_job t =
     job_of (thickness_params test_env)
       ''./sedimentation_output/predicted_thickness/sed_thick_0.1d'' t"

definition test_command :: "string list" where
  "test_command =
     [''/usr/bin/python3'', ''predict_sediment_thickness.py'',
      ''-d'', ''./distances_0.1d/mean_distance_0.1d_2.0.nc'',
      ''-g'', ''/Users/nickywright/Data/Age/Muller2019-Young2019-Cao2020_Agegrids/Muller2019-Young2019-Cao2020_netCDF/Muller2019-Young2019-Cao2020_AgeGrid-2.nc'',
      ''-i'', ''0.1'', ''-w'',
      ''-m'', ''61.18406823'', ''1835.28118479'',
      ''-v'', ''1934.6999014'', ''1207521.8995806'',
      ''-x'', ''191.87276'', ''3000.'',
      ''-f'',
      ''5.441401190368497'', ''0.46893096'', ''-0.07320928'', ''-0.24077496'', ''-0.10840657'',
      ''0.00381672'', ''0.06831728'', ''0.01179914'', ''0.01158149'', ''-0.39880562'',
      ''--'', ''./sedimentation_output/predicted_thickness/sed_thick_0.1d_2.0'']"

text \<open>
  The source configuration with the times 0, 1, 2 and only the thickness mode enabled;
  the same with \<^verbatim>\<open>use_all_cpus = 0\<close>; an environment in which waiting for the jobs of
  a pool is interrupted by the user.
\<close>

definition small_config :: "string config" where
  "small_config =
     (source_config test_env)\<lparr>max_time := 2, generate_sedimentation_rate_grids := False\<rparr>"

definition zero_cpus_config :: "string config" where
  "zero_cpus_config = small_config\<lparr>use_all_cpus := PyInt 0\<rparr>"

definition interrupt_env :: "string py_env" where
  "interrupt_env = test_env\<lparr>pool_get := (\<lambda>js. Some KeyboardInterrupt)\<rparr>"

text \<open>Whether the text \<open>t\<close> ends with the text \<open>s\<close>.\<close>

definition ends_with :: "string \<Rightarrow> string \<Rightarrow> bool" where
  "ends_with s t = (length s \<le> length t \<and> drop (length t - length s) t = s)"

text \<open>The command line of the thickness job whose time has the decimal text \<open>t\<close>.\<close>

definition thickness_command :: "string \<Rightarrow> string list" where
  "thickness_command t =
     [''/usr/bin/python3'', ''predict_sediment_thickness.py'',
      ''-d'', ''./distances_0.1d/mean_distance_0.1d_'' @ t @ ''.0.nc'',
      ''-g'', ''/Users/nickywright/Data/Age/Muller2019-Young2019-Cao2020_Agegrids/Muller2019-Young2019-Cao2020_netCDF/Muller2019-Young2019-Cao2020_AgeGrid-'' @ t @ ''.nc'',
      ''-i'', ''0.1'', ''-w'',
      ''-m'', ''61.18406823'', ''1835.28118479'',
      ''-v'', ''1934.6999014'', ''1207521.8995806'',
      ''-x'', ''191.87276'', ''3000.'',
      ''-f'',
      ''5.441401190368497'', ''0.46893096'', ''-0.07320928'', ''-0.24077496'', ''-0.10840657'',
      ''0.00381672'', ''0.06831728'', ''0.01179914'', ''0.01158149'', ''-0.39880562'',
      ''--'', ''./sedimentation_output/predicted_thickness/sed_thick_0.1d_'' @ t @ ''.0'']"

section \<open>Facts about the formatting functions\<close>

lemma bit_length_le: "m < 2 ^ k \<Longrightarrow> bit_length m \<le> k"
proof (induction k arbitrary: m)
  case 0
  then show ?case by (simp add: bit_length.simps)
next
  case (Suc k)
  show ?case
  proof (cases "m = 0")
    case True
    then show ?thesis by (simp add: bit_length.simps)
  next
    case False
    from Suc.prems have "m div 2 < 2 ^ k" by auto
    then have "bit_length (m div 2) \<le> k" by (rule Suc.IH)
    with False show ?thesis by (subst bit_length.simps) simp
  qed
qed

lemma round_to_double_exact: "m < 2 ^ 53 \<Longrightarrow> round_to_double m = m"
  using bit_length_le [of m 53] by (simp add: round_to_double_def Let_def)

text \<open>An integer below \<open>2^53\<close> in magnitude is converted to a float without rounding.\<close>

lemma float_of_int_exact: "\<bar>i\<bar> < 2 ^ 53 \<Longrightarrow> float_of_int i = Inr i"
proof -
  assume a: "\<bar>i\<bar> < 2 ^ 53"
  then have m: "nat \<bar>i\<bar> < 2 ^ 53" by (simp add: nat_less_iff)
  have "(2::nat) ^ 53 \<le> 2 ^ 1024" by (rule power_increasing) simp_all
  with m have "\<not> (2::nat) ^ 1024 \<le> nat \<bar>i\<bar>" by linarith
  with m show ?thesis
    by (simp add: float_of_int_def Let_def round_to_double_exact del: power_numeral)
qed

lemma format_fixed_int_Inr:
  "float_of_int t = Inr v \<Longrightarrow>
   format_fixed_int n t = Inr (str_int v @ (if n = 0 then [] else CHR ''.'' # replicate n CHR ''0''))"
  by (simp add: format_fixed_int_def)

lemma format_scan_literal:
  "brace_free lit \<Longrightarrow>
   format_scan env args Text nb out (lit @ rest) = format_scan env args Text nb (out @ lit) rest"
  by (induction lit arbitrary: out) (auto simp: brace_free_def)

lemmas format_defs =
  format_field_def format_value_def fixed_precision_def is_digit_def nat_of_digits_def
  digit_value_def

lemma format_time_template_1f:
  "brace_free pre \<Longrightarrow> brace_free post \<Longrightarrow>
   py_format env (pre @ ''{:.1f}'' @ post) [PyInt t] =
     (case format_fixed_int 1 t of Inl e \<Rightarrow> Inl e | Inr s \<Rightarrow> Inr (pre @ s @ post))"
  using format_scan_literal [of post env "[PyInt t]" "Auto 1" _ "[]"]
  by (simp add: py_format_def format_scan_literal format_defs split: sum.splits)

lemma format_time_template_0f:
  "brace_free pre \<Longrightarrow> brace_free post \<Longrightarrow>
   py_format env (pre @ ''{:.0f}'' @ post) [PyInt t] =
     (case format_fixed_int 0 t of Inl e \<Rightarrow> Inl e | Inr s \<Rightarrow> Inr (pre @ s @ post))"
  using format_scan_literal [of post env "[PyInt t]" "Auto 1" _ "[]"]
  by (simp add: py_format_def format_scan_literal format_defs split: sum.splits)

lemma output_prefix_format:
  "py_format env ''{}_{:.1f}'' [PyStr pre, PyInt t] =
     (case format_fixed_int 1 t of Inl e \<Rightarrow> Inl e | Inr s \<Rightarrow> Inr (pre @ ''_'' @ s))"
  by (simp add: py_format_def format_defs py_str_def split: sum.splits)

lemma distance_template:
  "distance_grid_filenames_format env cfg =
     (case format_value env ''.1f'' (distance_grid_spacing cfg) of
        Inl e \<Rightarrow> Inl e
      | Inr s \<Rightarrow> Inr (output_base_dir cfg @ ''/distances_'' @ s @ ''d/mean_distance_'' @ s
                      @ ''d_{:.1f}.nc''))"
  by (simp add: distance_grid_filenames_format_def py_format_def format_field_def is_digit_def
      nat_of_digits_def digit_value_def format_value_def [of _ "[]"] py_str_def split: sum.splits)

lemma format_value_float_1f: "format_value env ''.1f'' (PyFloat x) = Inr (format_float env 1 x)"
  by (simp add: format_defs)

section \<open>Facts about the command builder\<close>

lemma command_line_Inr_iff:
  "command_line env cfg dfmt j = Inr cmd \<longleftrightarrow>
     (\<exists>d g p.
        py_format env dfmt [PyInt (time j)] = Inr d \<and>
        py_format env (age_grid_filenames_format cfg) [PyInt (time j)] = Inr g \<and>
        py_format env ''{}_{:.1f}'' [PyStr (output_file_basename_prefix j), PyInt (time j)] = Inr p \<and>
        cmd =
          [sys_executable env, predict_sedimentation_script j,
           ''-d'', d, ''-g'', g, ''-i'', py_str env (grid_spacing cfg), ''-w'',
           ''-m'', py_str env (mean_age j), py_str env (mean_distance j),
           ''-v'', py_str env (variance_age j), py_str env (variance_distance j),
           ''-x'', py_str env (max_age j), py_str env (max_distance j),
           ''-f'']
          @ map (py_str env) (age_distance_polynomial_coefficients j)
          @ (if scale_sedimentation_rate j \<noteq> PyNone
             then [''-s'', py_str env (scale_sedimentation_rate j)] else [])
          @ [''--'', p])"
  by (auto simp: command_line_def Let_def split: sum.splits)

lemma str_int_digit: "0 \<le> i \<Longrightarrow> i < 10 \<Longrightarrow> str_int i = [digit_char (nat i)]"
  by (simp add: str_int_def str_nat.simps)

lemma float_of_int_2: "float_of_int 2 = Inr 2"
  by (rule float_of_int_exact) simp

lemma test_command_built:
  "command_line test_env (source_config test_env)
     ''./distances_0.1d/mean_distance_0.1d_{:.1f}.nc'' (test_job 2) = Inr test_command"
  by (simp add: command_line_def test_job_def job_of_def thickness_params_def source_config_def
      test_env_def py_format_def format_defs py_str_def format_fixed_int_def
      float_of_int_2 str_int_digit digit_char_def Let_def test_command_def)

lemma test_job_fields:
  "predict_sedimentation_script (test_job t) = ''predict_sediment_thickness.py''"
  "scale_sedimentation_rate (test_job t) = PyNone"
  "length (age_distance_polynomial_coefficients (test_job t)) = 10"
  "output_file_basename_prefix (test_job t) =
     ''./sedimentation_output/predicted_thickness/sed_thick_0.1d''"
  "time (test_job t) = t"
  by (simp_all add: test_job_def job_of_def thickness_params_def)

section \<open>The claims about the command builder\<close>

text \<open>
  C10. For every job, the built command line begins with exactly two elements that are
  not part of the predictor's own arguments: the path of the running Python interpreter
  (\<^verbatim>\<open>sys.executable\<close>), then the predictor script of the job's mode. The predictor's
  arguments start at the third element, with the flag of the distance grid.
\<close>

theorem command_starts_with_interpreter_and_script:
  "command_line env cfg dfmt j = Inr cmd \<Longrightarrow>
   take 2 cmd = [sys_executable env, predict_sedimentation_script j] \<and>
   hd (drop 2 cmd) = ''-d'' \<and>
   predict_sedimentation_script (job_of (rate_params env) prefix t) = ''predict_sedimentation_rate.py'' \<and>
   predict_sedimentation_script (job_of (thickness_params env) prefix t) = ''predict_sediment_thickness.py''"
  by (auto simp: command_line_Inr_iff job_of_def rate_params_def thickness_params_def)

theorem command_starts_with_interpreter_and_script_witness:
  "command_line test_env (source_config test_env)
     ''./distances_0.1d/mean_distance_0.1d_{:.1f}.nc'' (test_job 2) = Inr test_command \<and>
   take 2 test_command = [''/usr/bin/python3'', ''predict_sediment_thickness.py''] \<and>
   hd (drop 2 test_command) = ''-d''"
proof -
  note th = command_starts_with_interpreter_and_script [OF test_command_built, of "[]" 0]
  have "sys_executable test_env = ''/usr/bin/python3''" by (simp add: test_env_def)
  with th show ?thesis by (simp add: test_command_built test_job_fields)
qed

text \<open>
  C4. For every job whose command is built, the command has a scale-factor argument
  exactly when the job carries a scale factor: right after the polynomial coefficients
  stands \<^verbatim>\<open>-s\<close> followed by the text of the scale factor, or else the separator
  \<^verbatim>\<open>--\<close> follows the coefficients at once. The jobs of the rate mode carry a scale
  factor, the jobs of the thickness mode carry none.
\<close>

theorem scale_argument_iff_rate_job:
  "command_line env cfg dfmt j = Inr cmd \<Longrightarrow>
   n = length (age_distance_polynomial_coefficients j) \<Longrightarrow>
   (scale_sedimentation_rate j \<noteq> PyNone \<longleftrightarrow> cmd ! (19 + n) = ''-s'') \<and>
   (scale_sedimentation_rate j \<noteq> PyNone \<longrightarrow>
      cmd ! (20 + n) = py_str env (scale_sedimentation_rate j) \<and> cmd ! (21 + n) = ''--'' \<and>
      length cmd = 23 + n) \<and>
   (scale_sedimentation_rate j = PyNone \<longrightarrow> cmd ! (19 + n) = ''--'' \<and> length cmd = 21 + n) \<and>
   scale_sedimentation_rate (job_of (rate_params env) prefix t) \<noteq> PyNone \<and>
   scale_sedimentation_rate (job_of (thickness_params env) prefix t) = PyNone"
  by (auto simp: command_line_Inr_iff job_of_def rate_params_def thickness_params_def nth_append)

theorem scale_argument_iff_rate_job_witness:
  "command_line test_env (source_config test_env)
     ''./distances_0.1d/mean_distance_0.1d_{:.1f}.nc'' (test_job 2) = Inr test_command \<and>
   scale_sedimentation_rate (test_job 2) = PyNone \<and>
   test_command ! 29 = ''--'' \<and> length test_command = 31"
  using scale_argument_iff_rate_job [OF test_command_built, of 10 "[]" 0]
  by (simp add: test_command_built test_job_fields)

text \<open>
  C5. The command builder returns a command exactly when the three substitutions of the
  time succeed, and the command is then, after the interpreter and the script, in this
  order: the distance grid path, the age grid path, the output grid spacing, the flag
  \<^verbatim>\<open>-w\<close>, the mean age and distance, the variance of age and distance, the maximal age
  and distance, the polynomial coefficients one by one, the scale factor if there is
  one, and last the output prefix with the time to one decimal place appended.
\<close>

theorem command_line_order:
  "command_line env cfg dfmt j = Inr cmd \<longleftrightarrow>
     (\<exists>d g s.
        py_format env dfmt [PyInt (time j)] = Inr d \<and>
        py_format env (age_grid_filenames_format cfg) [PyInt (time j)] = Inr g \<and>
        format_fixed_int 1 (time j) = Inr s \<and>
        cmd =
          [sys_executable env, predict_sedimentation_script j]
          @ [''-d'', d]
          @ [''-g'', g]
          @ [''-i'', py_str env (grid_spacing cfg)]
          @ [''-w'']
          @ [''-m'', py_str env (mean_age j), py_str env (mean_distance j)]
          @ [''-v'', py_str env (variance_age j), py_str env (variance_distance j)]
          @ [''-x'', py_str env (max_age j), py_str env (max_distance j)]
          @ [''-f''] @ map (py_str env) (age_distance_polynomial_coefficients j)
          @ (if scale_sedimentation_rate j = PyNone then []
             else [''-s'', py_str env (scale_sedimentation_rate j)])
          @ [''--'', output_file_basename_prefix j @ ''_'' @ s])"
  by (auto simp: command_line_Inr_iff output_prefix_format split: sum.splits)

lemma brace_free_append [simp]: "brace_free (a @ b) \<longleftrightarrow> brace_free a \<and> brace_free b"
  by (auto simp: brace_free_def)

lemma distance_path:
  assumes "format_value env ''.1f'' (distance_grid_spacing cfg) = Inr sp"
    and "brace_free (output_base_dir cfg)" and "brace_free sp"
    and "float_of_int t = Inr v"
  shows "distance_grid_filenames_format env cfg =
           Inr (output_base_dir cfg @ ''/distances_'' @ sp @ ''d/mean_distance_'' @ sp @ ''d_{:.1f}.nc'')"
    and "py_format env
           (output_base_dir cfg @ ''/distances_'' @ sp @ ''d/mean_distance_'' @ sp @ ''d_{:.1f}.nc'')
           [PyInt t] =
         Inr (output_base_dir cfg @ ''/distances_'' @ sp @ ''d/mean_distance_'' @ sp @ ''d_''
              @ str_int v @ ''.0'' @ ''.nc'')"
proof -
  show "distance_grid_filenames_format env cfg =
           Inr (output_base_dir cfg @ ''/distances_'' @ sp @ ''d/mean_distance_'' @ sp @ ''d_{:.1f}.nc'')"
    using assms(1) by (simp add: distance_template)
  let ?pre = "output_base_dir cfg @ ''/distances_'' @ sp @ ''d/mean_distance_'' @ sp @ ''d_''"
  have bf: "brace_free ?pre" "brace_free ''.nc''"
    using assms(2,3) by (simp_all add: brace_free_def)
  have "py_format env (?pre @ ''{:.1f}'' @ ''.nc'') [PyInt t] = Inr (?pre @ (str_int v @ ''.0'') @ ''.nc'')"
    using format_time_template_1f [OF bf, of env t] assms(4)
    by (simp add: format_fixed_int_Inr)
  then show "py_format env
           (output_base_dir cfg @ ''/distances_'' @ sp @ ''d/mean_distance_'' @ sp @ ''d_{:.1f}.nc'')
           [PyInt t] =
         Inr (output_base_dir cfg @ ''/distances_'' @ sp @ ''d/mean_distance_'' @ sp @ ''d_''
              @ str_int v @ ''.0'' @ ''.nc'')"
    by simp
qed

lemma source_age_template:
  "age_grid_filenames_format (source_config env) =
     ''/Users/nickywright/Data/Age/Muller2019-Young2019-Cao2020_Agegrids/Muller2019-Young2019-Cao2020_netCDF/Muller2019-Young2019-Cao2020_AgeGrid-''
     @ ''{:.0f}'' @ ''.nc''"
  by (simp add: source_config_def)

text \<open>
  C6. Let the base directory and the one-decimal text of the distance grid spacing hold no
  braces, let the age grid template be a brace-free text around one field \<^verbatim>\<open>{:.0f}\<close>
  (as in the source), and let the time be convertible to a float, with value \<open>v\<close> (the
  time itself below \<open>2^53\<close>). Then line 70 yields the distance template and the builder
  returns a command in which the distance grid path carries the spacing to one decimal
  place in the directory and in the file name and the time as \<open>v\<close> followed by \<^verbatim>\<open>.0\<close>,
  the age grid path carries the time as \<open>v\<close> with no decimal places, and the last
  element is the output prefix followed by \<^verbatim>\<open>_\<close>, \<open>v\<close> and \<^verbatim>\<open>.0\<close>.
\<close>

theorem grid_paths_and_output_prefix:
  assumes "format_value env ''.1f'' (distance_grid_spacing cfg) = Inr sp"
    and "brace_free (output_base_dir cfg)" and "brace_free sp"
    and "age_grid_filenames_format cfg = age_pre @ ''{:.0f}'' @ age_post"
    and "brace_free age_pre" and "brace_free age_post"
    and "float_of_int (time j) = Inr v"
  shows "\<exists>dfmt cmd.
           distance_grid_filenames_format env cfg = Inr dfmt \<and>
           command_line env cfg dfmt j = Inr cmd \<and>
           cmd ! 3 = output_base_dir cfg @ ''/distances_'' @ sp @ ''d/mean_distance_'' @ sp @ ''d_''
                     @ str_int v @ ''.0'' @ ''.nc'' \<and>
           cmd ! 5 = age_pre @ str_int v @ age_post \<and>
           last cmd = output_file_basename_prefix j @ ''_'' @ str_int v @ ''.0''"
proof -
  note d = distance_path [OF assms(1,2,3,7)]
  have g: "py_format env (age_grid_filenames_format cfg) [PyInt (time j)] =
             Inr (age_pre @ str_int v @ age_post)"
    using format_time_template_0f [OF assms(5,6), of env "time j"] assms(4,7)
    by (simp add: format_fixed_int_Inr)
  have p: "py_format env ''{}_{:.1f}'' [PyStr (output_file_basename_prefix j), PyInt (time j)] =
             Inr (output_file_basename_prefix j @ ''_'' @ str_int v @ ''.0'')"
    using assms(7) by (simp add: output_prefix_format format_fixed_int_Inr)
  show ?thesis
    using d g p by (simp add: command_line_def Let_def)
qed

theorem grid_paths_and_output_prefix_witness:
  "format_value test_env ''.1f'' (distance_grid_spacing (source_config test_env)) = Inr ''0.1'' \<and>
   brace_free (output_base_dir (source_config test_env)) \<and> brace_free ''0.1'' \<and>
   float_of_int (time (test_job 2)) = Inr 2 \<and>
   (\<exists>cmd.
      command_line test_env (source_config test_env)
        ''./distances_0.1d/mean_distance_0.1d_{:.1f}.nc'' (test_job 2) = Inr cmd \<and>
      cmd ! 3 = ''./distances_0.1d/mean_distance_0.1d_2.0.nc'' \<and>
      cmd ! 5 = ''/Users/nickywright/Data/Age/Muller2019-Young2019-Cao2020_Agegrids/Muller2019-Young2019-Cao2020_netCDF/Muller2019-Young2019-Cao2020_AgeGrid-2.nc'' \<and>
      last cmd = ''./sedimentation_output/predicted_thickness/sed_thick_0.1d_2.0'')"
proof -
  have h1: "format_value test_env ''.1f'' (distance_grid_spacing (source_config test_env)) = Inr ''0.1''"
    by (simp add: format_defs source_config_def test_env_def)
  have h2: "brace_free (output_base_dir (source_config test_env))"
    by (simp add: brace_free_def source_config_def)
  have h3: "brace_free ''0.1''" by (simp add: brace_free_def)
  have h5: "brace_free ''/Users/nickywright/Data/Age/Muller2019-Young2019-Cao2020_Agegrids/Muller2019-Young2019-Cao2020_netCDF/Muller2019-Young2019-Cao2020_AgeGrid-''"
    by (simp add: brace_free_def)
  have h6: "brace_free ''.nc''" by (simp add: brace_free_def)
  have h7: "float_of_int (time (test_job 2)) = Inr 2"
    by (simp add: test_job_fields float_of_int_2)
  have b: "output_base_dir (source_config test_env) = ''.''"
    by (simp add: source_config_def)
  from grid_paths_and_output_prefix [OF h1 h2 h3 source_age_template h5 h6 h7]
  show ?thesis
    using h1 h2 h3 h7
    by (simp add: b distance_template test_job_fields str_int_digit digit_char_def)
qed

section \<open>The time range and the jobs\<close>

lemma range_up_nil: "\<not> i < stop \<Longrightarrow> range_up i stop step = []"
  by (simp add: range_up.simps)

lemma range_up_cons: "0 < step \<Longrightarrow> i < stop \<Longrightarrow> range_up i stop step = i # range_up (i + step) stop step"
  by (subst range_up.simps) simp

lemma range_len_nil: "0 < step \<Longrightarrow> \<not> i < stop \<Longrightarrow> range_len i stop step = 0"
proof -
  assume s: "0 < step" and "\<not> i < stop"
  then have "stop - i + step - 1 < step" by simp
  then have "(stop - i + step - 1) div step \<le> 0"
    using s by (metis div_pos_neg_trivial div_pos_pos_trivial linorder_not_less order_refl zdiv_mono1 less_le div_by_0 div_self zle_diff1_eq zdiv_eq_0_iff)
  then show ?thesis by (simp add: range_len_def)
qed

lemma range_len_cons: "0 < step \<Longrightarrow> i < stop \<Longrightarrow> range_len i stop step = Suc (range_len (i + step) stop step)"
proof -
  assume s: "0 < step" and l: "i < stop"
  have "(stop - i + step - 1) div step = (stop - (i + step) + step - 1) div step + 1"
  proof -
    have "stop - i + step - 1 = (stop - (i + step) + step - 1) + step" by simp
    then show ?thesis using s by (metis div_add_self2 less_irrefl)
  qed
  moreover have "0 \<le> (stop - (i + step) + step - 1) div step"
    using s l by (simp add: pos_imp_zdiv_nonneg_iff)
  ultimately show ?thesis by (simp add: range_len_def nat_add_distrib)
qed

lemma range_up_eq:
  "0 < step \<Longrightarrow> range_up i stop step = map (\<lambda>k. i + int k * step) [0..<range_len i stop step]"
proof (induction i stop step rule: range_up.induct)
  case (1 i stop step)
  show ?case
  proof (cases "i < stop")
    case True
    with 1 have ih: "range_up (i + step) stop step =
        map (\<lambda>k. i + step + int k * step) [0..<range_len (i + step) stop step]" by simp
    have "map (\<lambda>k. i + int k * step) [0..<Suc (range_len (i + step) stop step)] =
          i # map (\<lambda>k. i + step + int k * step) [0..<range_len (i + step) stop step]"
      by (simp add: map_upt_Suc algebra_simps del: upt_Suc)
    with True 1(2) ih show ?thesis
      by (simp add: range_up_cons range_len_cons del: upt_Suc)
  next
    case False
    with 1(2) show ?thesis by (simp add: range_up_nil range_len_nil)
  qed
qed

lemma le_div_iff_int: "0 < (c::int) \<Longrightarrow> k \<le> a div c \<longleftrightarrow> k * c \<le> a"
proof
  assume c: "0 < c" and k: "k \<le> a div c"
  from c k have "k * c \<le> (a div c) * c" by simp
  moreover have "0 \<le> a mod c" using c by simp
  moreover have "a = (a div c) * c + a mod c" by simp
  ultimately show "k * c \<le> a" by linarith
next
  assume c: "0 < c" and k: "k * c \<le> a"
  from k c have "(k * c) div c \<le> a div c" by (rule zdiv_mono1)
  with c show "k \<le> a div c" by simp
qed

lemma range_len_iff:
  "0 < step \<Longrightarrow> k < range_len i (m + 1) step \<longleftrightarrow> i + int k * step \<le> m"
proof -
  assume s: "0 < step"
  have "(m + 1 - i + step - 1) div step = (m - i) div step + 1"
  proof -
    have "m + 1 - i + step - 1 = (m - i) + step" by simp
    then show ?thesis using s by (metis div_add_self2 less_irrefl)
  qed
  then have "k < range_len i (m + 1) step \<longleftrightarrow> int k < (m - i) div step + 1"
    by (auto simp: range_len_def)
  also have "\<dots> \<longleftrightarrow> int k \<le> (m - i) div step" by auto
  also have "\<dots> \<longleftrightarrow> int k * step \<le> m - i"
    using s by (rule le_div_iff_int)
  finally show ?thesis by auto
qed

lemma range_len_card:
  "0 < step \<Longrightarrow> range_len i (m + 1) step = card {k::nat. i + int k * step \<le> m}"
proof -
  assume s: "0 < step"
  have "{k::nat. i + int k * step \<le> m} = {..<range_len i (m + 1) step}"
    using range_len_iff [OF s] by auto
  then show ?thesis by simp
qed

lemma times_positive_step:
  "0 < time_step cfg \<Longrightarrow>
   times cfg = Inr (map (\<lambda>k. min_time cfg + int k * time_step cfg)
                      [0..<card {k::nat. min_time cfg + int k * time_step cfg \<le> max_time cfg}])"
  by (simp add: times_def py_range_def range_up_eq range_len_card)

lemma jobs_of_times: "map time (jobs_of mp prefix ts) = ts"
  by (simp add: jobs_of_def job_of_def comp_def)

text \<open>
  C2. For every time range with a positive step, the range of line 186 is the list of the
  terms \<open>min_time + k * time_step\<close> that are at most \<open>max_time\<close>, in increasing order; the
  jobs made from it for one mode are as many as these terms, and their time values are
  these terms.
\<close>

theorem job_count_is_sequence_length:
  "0 < time_step cfg \<Longrightarrow>
   n = card {k::nat. min_time cfg + int k * time_step cfg \<le> max_time cfg} \<Longrightarrow>
   (\<exists>ts. times cfg = Inr ts \<and>
         length (jobs_of mp prefix ts) = n \<and>
         map time (jobs_of mp prefix ts) = map (\<lambda>k. min_time cfg + int k * time_step cfg) [0..<n])"
  by (simp add: times_positive_step jobs_of_times) (simp add: jobs_of_def)

lemma small_config_fields:
  "min_time small_config = 0" "max_time small_config = 2" "time_step small_config = 1"
  by (simp_all add: small_config_def source_config_def)

theorem job_count_is_sequence_length_witness:
  "0 < time_step small_config \<and>
   (\<exists>ts. times small_config = Inr ts \<and>
         length (jobs_of (thickness_params test_env) ''p'' ts) = 3 \<and>
         map time (jobs_of (thickness_params test_env) ''p'' ts) = [0, 1, 2])"
proof -
  have "{k::nat. min_time small_config + int k * time_step small_config \<le> max_time small_config} = {..<3}"
    by (auto simp: small_config_fields)
  then have n: "3 = card {k::nat. min_time small_config + int k * time_step small_config \<le> max_time small_config}"
    by simp
  have s: "0 < time_step small_config" by (simp add: small_config_fields)
  have u: "[0..<3] = [0, 1, 2]" by (simp add: upt_rec)
  from job_count_is_sequence_length [OF s n, of "thickness_params test_env" "''p''"] s
  show ?thesis by (simp add: small_config_fields u)
qed

lemma float_of_int_digit: "0 \<le> t \<Longrightarrow> t < 10 \<Longrightarrow> float_of_int t = Inr t"
  by (rule float_of_int_exact) simp

lemma thickness_command_built:
  "0 \<le> t \<Longrightarrow> t < 10 \<Longrightarrow>
   command_line test_env small_config
     ''./distances_0.1d/mean_distance_0.1d_{:.1f}.nc'' (test_job t) =
   Inr (thickness_command [digit_char (nat t)])"
  by (simp add: command_line_def test_job_def job_of_def
      thickness_params_def small_config_def source_config_def
      test_env_def py_format_def format_defs py_str_def format_fixed_int_def
      float_of_int_digit str_int_digit Let_def thickness_command_def)

lemma times_small_config: "times small_config = Inr [0, 1, 2]"
  by (simp add: times_def py_range_def small_config_fields range_up.simps)

lemma test_job_of:
  "job_of (thickness_params test_env)
     ''./sedimentation_output/predicted_thickness/sed_thick_0.1d'' t = test_job t"
  by (simp add: test_job_def)

lemma range_up_ge: "x \<in> set (range_up i stop step) \<Longrightarrow> i \<le> x"
proof (induction i stop step rule: range_up.induct)
  case (1 i stop step)
  show ?case
  proof (cases "0 < step \<and> i < stop")
    case True
    with 1 show ?thesis by (subst (asm) (2) range_up.simps) auto
  next
    case False
    with 1(2) show ?thesis by (subst (asm) range_up.simps) auto
  qed
qed

lemma distinct_range_up: "distinct (range_up i stop step)"
proof (induction i stop step rule: range_up.induct)
  case (1 i stop step)
  show ?case
  proof (cases "0 < step \<and> i < stop")
    case True
    then have "i \<notin> set (range_up (i + step) stop step)" using range_up_ge [of i "i + step" stop step] by auto
    with True 1 show ?thesis by (subst range_up.simps) simp
  next
    case False
    then show ?thesis by (subst range_up.simps) auto
  qed
qed

lemma range_down_le: "x \<in> set (range_down i stop step) \<Longrightarrow> x \<le> i"
proof (induction i stop step rule: range_down.induct)
  case (1 i stop step)
  show ?case
  proof (cases "step < 0 \<and> stop < i")
    case True
    with 1 show ?thesis by (subst (asm) (2) range_down.simps) auto
  next
    case False
    with 1(2) show ?thesis by (subst (asm) range_down.simps) auto
  qed
qed

lemma distinct_range_down: "distinct (range_down i stop step)"
proof (induction i stop step rule: range_down.induct)
  case (1 i stop step)
  show ?case
  proof (cases "step < 0 \<and> stop < i")
    case True
    then have "i \<notin> set (range_down (i + step) stop step)" using range_down_le [of i "i + step" stop step] by auto
    with True 1 show ?thesis by (subst range_down.simps) simp
  next
    case False
    then show ?thesis by (subst range_down.simps) auto
  qed
qed

lemma times_distinct: "times cfg = Inr ts \<Longrightarrow> distinct ts"
  by (auto simp: times_def py_range_def distinct_range_up distinct_range_down split: if_splits)

lemma filter_time_jobs:
  "distinct ts \<Longrightarrow> t \<in> set ts \<Longrightarrow>
   filter (\<lambda>j. time j = t) (jobs_of mp prefix ts) = [job_of mp prefix t]"
proof (induction ts)
  case Nil
  then show ?case by simp
next
  case (Cons a ts)
  have e: "t \<notin> set ts \<Longrightarrow> filter (\<lambda>j. time j = t) (jobs_of mp prefix ts) = []"
    by (auto simp: jobs_of_def job_of_def filter_empty_conv)
  from Cons show ?case
    by (cases "a = t") (auto simp: jobs_of_def e [unfolded jobs_of_def] job_of_def)
qed

lemma commands_agree:
  "command_line env cfg dfmt (job_of mp prefix t1) = Inr c1 \<Longrightarrow>
   command_line env cfg dfmt (job_of mp prefix t2) = Inr c2 \<Longrightarrow>
   length c1 = length c2 \<and> take 3 c1 = take 3 c2 \<and> c1 ! 4 = c2 ! 4 \<and>
   butlast (drop 6 c1) = butlast (drop 6 c2)"
  by (auto simp: command_line_Inr_iff job_of_def butlast_append)

text \<open>
  C3. The jobs of a mode are one per time of the range: their time values are the items
  of the range in order, the items are pairwise different, and for every item there is
  exactly one job with that time. Every job carries the script, the scale factor, the
  means, the variances, the maxima, the coefficients and the output prefix of its mode,
  so two jobs of a mode differ only in the time. The commands built for two such jobs
  have the same length and are equal in the first three elements, in the element between
  the two grid paths, and from the element after the age grid path up to the last but
  one: they differ at most in the distance grid path, the age grid path and the output
  prefix.
\<close>

theorem one_job_per_time_same_parameters:
  assumes "times cfg = Inr ts"
  shows "map time (jobs_of mp prefix ts) = ts \<and> distinct ts \<and>
         (\<forall>t \<in> set ts. filter (\<lambda>j. time j = t) (jobs_of mp prefix ts) = [job_of mp prefix t]) \<and>
         (\<forall>j \<in> set (jobs_of mp prefix ts).
            predict_sedimentation_script j = mp_script mp \<and>
            scale_sedimentation_rate j = mp_scale mp \<and>
            mean_age j = mp_mean_age mp \<and> mean_distance j = mp_mean_distance mp \<and>
            variance_age j = mp_variance_age mp \<and> variance_distance j = mp_variance_distance mp \<and>
            max_age j = mp_max_age mp \<and> max_distance j = mp_max_distance mp \<and>
            age_distance_polynomial_coefficients j = mp_coefficients mp \<and>
            output_file_basename_prefix j = prefix) \<and>
         (\<forall>j1 \<in> set (jobs_of mp prefix ts). \<forall>j2 \<in> set (jobs_of mp prefix ts). \<forall>c1 c2.
            command_line env cfg dfmt j1 = Inr c1 \<and> command_line env cfg dfmt j2 = Inr c2 \<longrightarrow>
            length c1 = length c2 \<and> take 3 c1 = take 3 c2 \<and> c1 ! 4 = c2 ! 4 \<and>
            butlast (drop 6 c1) = butlast (drop 6 c2))"
proof -
  have d: "distinct ts" using assms by (rule times_distinct)
  have m: "map time (jobs_of mp prefix ts) = ts"
    by (simp add: jobs_of_def job_of_def comp_def)
  have f: "\<forall>t \<in> set ts. filter (\<lambda>j. time j = t) (jobs_of mp prefix ts) = [job_of mp prefix t]"
    using d by (simp add: filter_time_jobs)
  have p: "\<forall>j \<in> set (jobs_of mp prefix ts).
            predict_sedimentation_script j = mp_script mp \<and>
            scale_sedimentation_rate j = mp_scale mp \<and>
            mean_age j = mp_mean_age mp \<and> mean_distance j = mp_mean_distance mp \<and>
            variance_age j = mp_variance_age mp \<and> variance_distance j = mp_variance_distance mp \<and>
            max_age j = mp_max_age mp \<and> max_distance j = mp_max_distance mp \<and>
            age_distance_polynomial_coefficients j = mp_coefficients mp \<and>
            output_file_basename_prefix j = prefix"
    by (auto simp: jobs_of_def job_of_def)
  have c: "\<forall>j1 \<in> set (jobs_of mp prefix ts). \<forall>j2 \<in> set (jobs_of mp prefix ts). \<forall>c1 c2.
            command_line env cfg dfmt j1 = Inr c1 \<and> command_line env cfg dfmt j2 = Inr c2 \<longrightarrow>
            length c1 = length c2 \<and> take 3 c1 = take 3 c2 \<and> c1 ! 4 = c2 ! 4 \<and>
            butlast (drop 6 c1) = butlast (drop 6 c2)"
    using commands_agree [of env cfg dfmt mp prefix] by (auto simp: jobs_of_def)
  from m d f p c show ?thesis by blast
qed

theorem one_job_per_time_same_parameters_witness:
  "times small_config = Inr [0, 1, 2] \<and>
   map time (map test_job [0, 1, 2]) = [0, 1, 2] \<and>
   filter (\<lambda>j. time j = 1) (map test_job [0, 1, 2]) = [test_job 1] \<and>
   mean_age (test_job 1) = mean_age (test_job 2) \<and>
   age_distance_polynomial_coefficients (test_job 1) = age_distance_polynomial_coefficients (test_job 2) \<and>
   command_line test_env small_config ''./distances_0.1d/mean_distance_0.1d_{:.1f}.nc'' (test_job 1)
     = Inr (thickness_command ''1'') \<and>
   command_line test_env small_config ''./distances_0.1d/mean_distance_0.1d_{:.1f}.nc'' (test_job 2)
     = Inr (thickness_command ''2'') \<and>
   take 3 (thickness_command ''1'') = take 3 (thickness_command ''2'') \<and>
   butlast (drop 6 (thickness_command ''1'')) = butlast (drop 6 (thickness_command ''2''))"
proof -
  let ?P = "''./sedimentation_output/predicted_thickness/sed_thick_0.1d''"
  let ?D = "''./distances_0.1d/mean_distance_0.1d_{:.1f}.nc''"
  let ?mp = "thickness_params test_env"
  note th = one_job_per_time_same_parameters [OF times_small_config, of ?mp ?P test_env ?D]
  have js: "jobs_of ?mp ?P [0, 1, 2] = map test_job [0, 1, 2]"
    by (simp add: jobs_of_def test_job_of)
  have m1: "test_job 1 \<in> set (jobs_of ?mp ?P [0, 1, 2])"
    and m2: "test_job 2 \<in> set (jobs_of ?mp ?P [0, 1, 2])"
    by (simp_all add: js)
  have c1: "command_line test_env small_config ?D (test_job 1) = Inr (thickness_command ''1'')"
    using thickness_command_built [of 1] by (simp add: digit_char_def)
  have c2: "command_line test_env small_config ?D (test_job 2) = Inr (thickness_command ''2'')"
    using thickness_command_built [of 2] by (simp add: digit_char_def)
  have a: "map time (map test_job [0, 1, 2]) = [0, 1, 2]"
    using th [THEN conjunct1] by (simp only: js)
  have f: "filter (\<lambda>j. time j = 1) (map test_job [0, 1, 2]) = [test_job 1]"
    using th [THEN conjunct2, THEN conjunct2, THEN conjunct1, THEN bspec, of 1]
    by (simp only: js test_job_of) simp
  note p = th [THEN conjunct2, THEN conjunct2, THEN conjunct2, THEN conjunct1]
  have q: "mean_age (test_job 1) = mean_age (test_job 2)"
    "age_distance_polynomial_coefficients (test_job 1) =
     age_distance_polynomial_coefficients (test_job 2)"
    using bspec [OF p m1] bspec [OF p m2] by simp_all
  note c = th [THEN conjunct2, THEN conjunct2, THEN conjunct2, THEN conjunct2,
      rule_format, OF m1 m2 conjI [OF c1 c2]]
  from c have t: "take 3 (thickness_command ''1'') = take 3 (thickness_command ''2'')"
    and b: "butlast (drop 6 (thickness_command ''1'')) = butlast (drop 6 (thickness_command ''2''))"
    by blast+
  from times_small_config a f q c1 c2 t b show ?thesis by blast
qed

section \<open>Facts about the state\<close>

lemma obs_emit:
  "calls (emit e w) = calls w @ event_call e"
  "submitted (emit e w) = submitted w @ event_jobs e"
  "mkdirs (emit e w) = mkdirs w @ event_mkdir e"
  "paths (emit e w) = paths w"
  "pool (emit e w) = pool w"
  "pools_created (emit e w) = pools_created w"
  "log (emit e w) = log w @ [e]"
  by (simp_all add: emit_def calls_def submitted_def mkdirs_def)

lemma obs_update:
  "calls (w\<lparr>paths := ps\<rparr>) = calls w"
  "submitted (w\<lparr>paths := ps\<rparr>) = submitted w"
  "mkdirs (w\<lparr>paths := ps\<rparr>) = mkdirs w"
  "calls (w\<lparr>pool := p, pools_created := k\<rparr>) = calls w"
  "submitted (w\<lparr>pool := p, pools_created := k\<rparr>) = submitted w"
  "mkdirs (w\<lparr>pool := p, pools_created := k\<rparr>) = mkdirs w"
  by (simp_all add: calls_def submitted_def mkdirs_def)

lemma event_simps:
  "event_call (Print s) = []" "event_call (Mkdir d) = []" "event_call (Call c) = [c]"
  "event_call (PoolCreate p n) = []" "event_call (MapAsync p js) = []"
  "event_call (PoolClose p) = []" "event_call (PoolJoin p) = []"
  "event_jobs (Print s) = []" "event_jobs (Mkdir d) = []" "event_jobs (Call c) = []"
  "event_jobs (PoolCreate p n) = []" "event_jobs (MapAsync p js) = js"
  "event_jobs (PoolClose p) = []" "event_jobs (PoolJoin p) = []"
  "event_mkdir (Print s) = []" "event_mkdir (Mkdir d) = [d]" "event_mkdir (Call c) = []"
  "event_mkdir (PoolCreate p n) = []" "event_mkdir (MapAsync p js) = []"
  "event_mkdir (PoolClose p) = []" "event_mkdir (PoolJoin p) = []"
  by (simp_all add: event_call_def event_jobs_def event_mkdir_def)

lemmas obs_simps = obs_emit obs_update event_simps

subsection \<open>Directory creation\<close>

lemma ensure_dir_exists: "d \<in> paths w \<Longrightarrow> ensure_dir env d w = (None, w)"
  by (simp add: ensure_dir_def)

lemma ensure_dir_creates:
  "d \<notin> paths w \<Longrightarrow> mkdir_failure env d = None \<Longrightarrow>
   \<exists>w'. ensure_dir env d w = (None, w') \<and> paths w' = insert d (paths w) \<and>
        mkdirs w' = mkdirs w @ [d]"
  by (simp add: ensure_dir_def os_mkdir_def obs_simps)

lemma ensure_dir_result:
  "ensure_dir env d w = (r, w1) \<Longrightarrow>
   calls w1 = calls w \<and> submitted w1 = submitted w \<and> paths w \<subseteq> paths w1 \<and>
   (r = None \<longrightarrow> d \<in> paths w1)"
  by (auto simp: ensure_dir_def os_mkdir_def obs_simps split: if_splits option.splits)

subsection \<open>Dispatch\<close>

lemma parallel_dispatch_result:
  "parallel_dispatch env n jobs w = (r, w1) \<Longrightarrow>
   calls w1 = calls w \<and> paths w1 = paths w \<and> mkdirs w1 = mkdirs w"
  by (auto simp: parallel_dispatch_def try_body_def finally_clause_def Let_def obs_simps
      split: option.splits if_splits)

lemma generate_result:
  "generate_predicted_sedimentation_grid env cfg dfmt j w = (r, w1) \<Longrightarrow>
   submitted w1 = submitted w \<and> paths w1 = paths w \<and> mkdirs w1 = mkdirs w"
  by (auto simp: generate_predicted_sedimentation_grid_def obs_simps split: sum.splits)

lemma sequential_dispatch_result:
  "sequential_dispatch env cfg dfmt js w = (r, w1) \<Longrightarrow>
   submitted w1 = submitted w \<and> paths w1 = paths w \<and> mkdirs w1 = mkdirs w"
proof (induction js arbitrary: w)
  case Nil
  then show ?case by simp
next
  case (Cons j js)
  obtain r0 w0 where g: "generate_predicted_sedimentation_grid env cfg dfmt j w = (r0, w0)"
    by (cases "generate_predicted_sedimentation_grid env cfg dfmt j w")
  note g0 = generate_result [OF g]
  show ?case
  proof (cases r0)
    case None
    with Cons.prems g have "sequential_dispatch env cfg dfmt js w0 = (r, w1)" by simp
    from Cons.IH [OF this] g0 show ?thesis by simp
  next
    case (Some e)
    with Cons.prems g have "w1 = w0" by simp
    with g0 show ?thesis by simp
  qed
qed

text \<open>The dispatch of a mode block, through \<open>resolve_dispatch\<close>.\<close>

lemma run_mode_dispatch:
  "run_mode env cfg dfmt ts mp w =
     (case basename_prefix env cfg mp of
        Inl e \<Rightarrow> (Some e, w)
      | Inr prefix \<Rightarrow>
     (case ensure_dir env (output_dir cfg mp) w of
        (Some e, w1) \<Rightarrow> (Some e, w1)
      | (None, w1) \<Rightarrow>
          (case resolve_dispatch env (use_all_cpus cfg) of
             Inl e \<Rightarrow> (Some e, emit (Print (mp_banner mp)) w1)
           | Inr Sequential \<Rightarrow>
               sequential_dispatch env cfg dfmt (jobs_of mp prefix ts) (emit (Print (mp_banner mp)) w1)
           | Inr (Parallel n) \<Rightarrow>
               parallel_dispatch env n (jobs_of mp prefix ts) (emit (Print (mp_banner mp)) w1))))"
  by (simp add: run_mode_def resolve_dispatch_def Let_def split: sum.splits prod.splits option.splits)

lemma run_mode_cases:
  assumes "run_mode env cfg dfmt ts mp w = (r, w1)"
  obtains
    (prefix_error) e where "basename_prefix env cfg mp = Inl e" "r = Some e" "w1 = w"
  | (dir_error) prefix e where "basename_prefix env cfg mp = Inr prefix"
      "ensure_dir env (output_dir cfg mp) w = (Some e, w1)" "r = Some e"
  | (type_error) prefix w0 e where "basename_prefix env cfg mp = Inr prefix"
      "ensure_dir env (output_dir cfg mp) w = (None, w0)"
      "truthy env (use_all_cpus cfg)" "num_cpus env (use_all_cpus cfg) = Inl e"
      "r = Some e" "w1 = emit (Print (mp_banner mp)) w0"
  | (parallel) prefix w0 n where "basename_prefix env cfg mp = Inr prefix"
      "ensure_dir env (output_dir cfg mp) w = (None, w0)"
      "truthy env (use_all_cpus cfg)" "num_cpus env (use_all_cpus cfg) = Inr n"
      "parallel_dispatch env n (jobs_of mp prefix ts) (emit (Print (mp_banner mp)) w0) = (r, w1)"
  | (sequential) prefix w0 where "basename_prefix env cfg mp = Inr prefix"
      "ensure_dir env (output_dir cfg mp) w = (None, w0)"
      "\<not> truthy env (use_all_cpus cfg)"
      "sequential_dispatch env cfg dfmt (jobs_of mp prefix ts) (emit (Print (mp_banner mp)) w0) = (r, w1)"
proof (cases "basename_prefix env cfg mp")
  case (Inl e)
  with assms have "r = Some e" "w1 = w" by (simp_all add: run_mode_def)
  with Inl show ?thesis by (rule prefix_error)
next
  case (Inr prefix)
  obtain r0 w0 where d: "ensure_dir env (output_dir cfg mp) w = (r0, w0)"
    by (cases "ensure_dir env (output_dir cfg mp) w")
  show ?thesis
  proof (cases r0)
    case (Some e)
    with assms Inr d have "r = Some e" "w1 = w0" by (simp_all add: run_mode_def)
    with Inr d Some show ?thesis by (auto intro: dir_error)
  next
    case None
    note d0 = d [unfolded None]
    show ?thesis
    proof (cases "truthy env (use_all_cpus cfg)")
      case False
      with assms Inr d0
      have "sequential_dispatch env cfg dfmt (jobs_of mp prefix ts) (emit (Print (mp_banner mp)) w0) = (r, w1)"
        by (simp add: run_mode_def Let_def)
      with Inr d0 False show ?thesis by (rule sequential)
    next
      case True
      show ?thesis
      proof (cases "num_cpus env (use_all_cpus cfg)")
        case (Inl e)
        with assms Inr d0 True have "r = Some e" "w1 = emit (Print (mp_banner mp)) w0"
          by (simp_all add: run_mode_def Let_def)
        with Inr d0 True Inl show ?thesis by (rule type_error)
      next
        case (Inr n)
        with assms \<open>basename_prefix env cfg mp = Inr prefix\<close> d0 True
        have "parallel_dispatch env n (jobs_of mp prefix ts) (emit (Print (mp_banner mp)) w0) = (r, w1)"
          by (simp add: run_mode_def Let_def)
        with \<open>basename_prefix env cfg mp = Inr prefix\<close> d0 True Inr show ?thesis by (rule parallel)
      qed
    qed
  qed
qed

lemma run_mode_paths:
  assumes "run_mode env cfg dfmt ts mp w = (r, w1)"
  shows "paths w \<subseteq> paths w1 \<and> (r = None \<longrightarrow> output_dir cfg mp \<in> paths w1)"
  using assms
proof (cases rule: run_mode_cases)
  case (prefix_error e)
  then show ?thesis by simp
next
  case (dir_error prefix e)
  from ensure_dir_result [OF dir_error(2)] dir_error(3) show ?thesis by simp
next
  case (type_error prefix w0 e)
  from ensure_dir_result [OF type_error(2)] type_error(5,6) show ?thesis by (simp add: obs_emit)
next
  case (parallel prefix w0 n)
  from ensure_dir_result [OF parallel(2)] parallel_dispatch_result [OF parallel(5)]
  show ?thesis by (simp add: obs_emit)
next
  case (sequential prefix w0)
  from ensure_dir_result [OF sequential(2)] sequential_dispatch_result [OF sequential(4)]
  show ?thesis by (simp add: obs_emit)
qed

lemma run_mode_exists:
  assumes "run_mode env cfg dfmt ts mp w = (r, w1)" and ex: "output_dir cfg mp \<in> paths w"
  shows "paths w1 = paths w \<and> mkdirs w1 = mkdirs w"
  using assms(1)
proof (cases rule: run_mode_cases)
  case (prefix_error e)
  then show ?thesis by simp
next
  case (dir_error prefix e)
  with ensure_dir_exists [OF ex, of env] show ?thesis by simp
next
  case (type_error prefix w0 e)
  with ensure_dir_exists [OF ex, of env] show ?thesis by (simp add: obs_simps)
next
  case (parallel prefix w0 n)
  from parallel(2) ensure_dir_exists [OF ex, of env] have "w0 = w" by simp
  with parallel_dispatch_result [OF parallel(5)] show ?thesis by (simp add: obs_simps)
next
  case (sequential prefix w0)
  from sequential(2) ensure_dir_exists [OF ex, of env] have "w0 = w" by simp
  with sequential_dispatch_result [OF sequential(4)] show ?thesis by (simp add: obs_simps)
qed

lemma num_cpus_nonpositive: "n \<le> 0 \<Longrightarrow> num_cpus env (PyInt n) = Inl TypeError"
  by (simp add: num_cpus_def isinstance_bool_def isinstance_int_def int_value_def)

lemma run_mode_negative:
  assumes "use_all_cpus cfg = PyInt n" and "n < 0"
    and "run_mode env cfg dfmt ts mp w = (r, w1)"
  shows "calls w1 = calls w \<and> submitted w1 = submitted w \<and> r \<noteq> None"
  using assms(3)
proof (cases rule: run_mode_cases)
  case (prefix_error e)
  then show ?thesis by simp
next
  case (dir_error prefix e)
  from ensure_dir_result [OF dir_error(2)] dir_error(3) show ?thesis by simp
next
  case (type_error prefix w0 e)
  from ensure_dir_result [OF type_error(2)] type_error(5,6) show ?thesis by (simp add: obs_simps)
next
  case (parallel prefix w0 k)
  with assms(1,2) show ?thesis by (simp add: num_cpus_nonpositive)
next
  case (sequential prefix w0)
  with assms(1,2) show ?thesis by (simp add: truthy_def)
qed

lemma parallel_dispatch_created:
  assumes "pool_create env n = None"
  shows "parallel_dispatch env n jobs w =
           (if pool_get env jobs = Some KeyboardInterrupt then None else pool_get env jobs,
            w\<lparr>log := log w @ [PoolCreate (pools_created w) n, MapAsync (pools_created w) jobs,
                                PoolClose (pools_created w), PoolJoin (pools_created w)],
               pool := Some (pools_created w), pools_created := Suc (pools_created w)\<rparr>)"
  using assms
  by (simp add: parallel_dispatch_def try_body_def finally_clause_def Let_def emit_def)

lemma parallel_dispatch_not_created:
  assumes "pool_create env n = Some e" and "pool w = None"
  shows "parallel_dispatch env n jobs w = (Some NameError, w)"
  using assms
  by (simp add: parallel_dispatch_def try_body_def finally_clause_def)

lemma parallel_dispatch_no_interrupt:
  "fst (parallel_dispatch env n jobs w) \<noteq> Some KeyboardInterrupt"
  by (auto simp: parallel_dispatch_def try_body_def finally_clause_def Let_def obs_emit
      split: option.splits prod.splits)

lemma sequential_dispatch_calls:
  "sequential_dispatch env cfg dfmt js w = (None, w1) \<Longrightarrow>
   \<exists>cmds. map (command_line env cfg dfmt) js = map Inr cmds \<and> calls w1 = calls w @ cmds"
proof (induction js arbitrary: w)
  case Nil
  then show ?case by simp
next
  case (Cons j js)
  obtain r0 w0 where g: "generate_predicted_sedimentation_grid env cfg dfmt j w = (r0, w0)"
    by (cases "generate_predicted_sedimentation_grid env cfg dfmt j w")
  with Cons.prems have r0: "r0 = None" by (cases r0) simp_all
  with Cons.prems g have s: "sequential_dispatch env cfg dfmt js w0 = (None, w1)" by simp
  from g r0 obtain c where c: "command_line env cfg dfmt j = Inr c" and w0: "w0 = emit (Call c) w"
    by (auto simp: generate_predicted_sedimentation_grid_def split: sum.splits)
  from Cons.IH [OF s] obtain cmds where
    m: "map (command_line env cfg dfmt) js = map Inr cmds" and k: "calls w1 = calls w0 @ cmds"
    by blast
  have "map (command_line env cfg dfmt) (j # js) = map Inr (c # cmds)" using c m by simp
  moreover have "calls w1 = calls w @ (c # cmds)" using k w0 by (simp add: obs_simps)
  ultimately show ?case by blast
qed

lemma main_cases:
  assumes "main env cfg w = (r, w1)"
  obtains
    (template_error) e where "distance_grid_filenames_format env cfg = Inl e" "r = Some e" "w1 = w"
  | (dir_error) e where
      "ensure_dir env (path_join (output_base_dir cfg) (sediment_output_sub_dir cfg)) w = (Some e, w1)"
      "r = Some e"
  | (range_error) e where
      "ensure_dir env (path_join (output_base_dir cfg) (sediment_output_sub_dir cfg)) w = (None, w1)"
      "times cfg = Inl e" "r = Some e"
  | (rate_error) dfmt ts w0 e where
      "distance_grid_filenames_format env cfg = Inr dfmt"
      "ensure_dir env (path_join (output_base_dir cfg) (sediment_output_sub_dir cfg)) w = (None, w0)"
      "times cfg = Inr ts" "generate_sedimentation_rate_grids cfg"
      "run_mode env cfg dfmt ts (rate_params env) w0 = (Some e, w1)" "r = Some e"
  | (modes) dfmt ts w0 w2 where
      "distance_grid_filenames_format env cfg = Inr dfmt"
      "ensure_dir env (path_join (output_base_dir cfg) (sediment_output_sub_dir cfg)) w = (None, w0)"
      "times cfg = Inr ts"
      "if generate_sedimentation_rate_grids cfg
       then run_mode env cfg dfmt ts (rate_params env) w0 = (None, w2) else w2 = w0"
      "if generate_sediment_thickness_grids cfg
       then run_mode env cfg dfmt ts (thickness_params env) w2 = (r, w1) else r = None \<and> w1 = w2"
proof (cases "distance_grid_filenames_format env cfg")
  case (Inl e)
  with assms have "r = Some e" "w1 = w" by (simp_all add: main_def)
  with Inl show ?thesis by (rule template_error)
next
  case (Inr dfmt)
  note dfmt = Inr
  let ?base = "path_join (output_base_dir cfg) (sediment_output_sub_dir cfg)"
  obtain r0 w0 where d: "ensure_dir env ?base w = (r0, w0)" by (cases "ensure_dir env ?base w")
  show ?thesis
  proof (cases r0)
    case (Some e)
    with assms dfmt d have "r = Some e" "w1 = w0" by (simp_all add: main_def)
    with d Some show ?thesis by (auto intro: dir_error)
  next
    case None
    note d0 = d [unfolded None]
    show ?thesis
    proof (cases "times cfg")
      case (Inl e)
      with assms dfmt d0 have "r = Some e" "w1 = w0" by (simp_all add: main_def)
      with d0 Inl show ?thesis by (auto intro: range_error)
    next
      case (Inr ts)
      note ts = Inr
      obtain r1 w2 where
        m1: "(if generate_sedimentation_rate_grids cfg
              then run_mode env cfg dfmt ts (rate_params env) w0 else (None, w0)) = (r1, w2)"
        by (cases "if generate_sedimentation_rate_grids cfg
              then run_mode env cfg dfmt ts (rate_params env) w0 else (None, w0)")
      show ?thesis
      proof (cases r1)
        case (Some e)
        with m1 have g: "generate_sedimentation_rate_grids cfg"
          and rm: "run_mode env cfg dfmt ts (rate_params env) w0 = (Some e, w2)"
          by (auto split: if_splits)
        from assms dfmt d0 ts m1 Some have "r = Some e" "w1 = w2" by (simp_all add: main_def)
        with dfmt d0 ts g rm show ?thesis by (auto intro: rate_error)
      next
        case None
        from m1 None have a: "if generate_sedimentation_rate_grids cfg
          then run_mode env cfg dfmt ts (rate_params env) w0 = (None, w2) else w2 = w0"
          by (auto split: if_splits)
        from assms dfmt d0 ts m1 None have b: "if generate_sediment_thickness_grids cfg
          then run_mode env cfg dfmt ts (thickness_params env) w2 = (r, w1) else r = None \<and> w1 = w2"
          by (auto simp: main_def split: if_splits)
        from dfmt d0 ts a b show ?thesis by (rule modes)
      qed
    qed
  qed
qed

lemma main_negative:
  assumes u: "use_all_cpus cfg = PyInt n" and n: "n < 0" and m: "main env cfg w = (r, w1)"
  shows "calls w1 = calls w \<and> submitted w1 = submitted w \<and>
         (generate_sedimentation_rate_grids cfg \<or> generate_sediment_thickness_grids cfg
            \<longrightarrow> r \<noteq> None)"
  using m
proof (cases rule: main_cases)
  case (template_error e)
  then show ?thesis by simp
next
  case (dir_error e)
  from ensure_dir_result [OF dir_error(1)] dir_error(2) show ?thesis by simp
next
  case (range_error e)
  from ensure_dir_result [OF range_error(1)] range_error(3) show ?thesis by simp
next
  case (rate_error dfmt ts w0 e)
  from ensure_dir_result [OF rate_error(2)] run_mode_negative [OF u n rate_error(5)] rate_error(6)
  show ?thesis by simp
next
  case (modes dfmt ts w0 w2)
  have nr: "\<not> generate_sedimentation_rate_grids cfg"
  proof
    assume "generate_sedimentation_rate_grids cfg"
    with modes(4) have "run_mode env cfg dfmt ts (rate_params env) w0 = (None, w2)" by simp
    from run_mode_negative [OF u n this] show False by simp
  qed
  with modes(4) have w2: "w2 = w0" by simp
  show ?thesis
  proof (cases "generate_sediment_thickness_grids cfg")
    case True
    with modes(5) have "run_mode env cfg dfmt ts (thickness_params env) w2 = (r, w1)" by simp
    from run_mode_negative [OF u n this] ensure_dir_result [OF modes(2)] w2
    show ?thesis by simp
  next
    case False
    with modes(5) nr w2 ensure_dir_result [OF modes(2)] show ?thesis by simp
  qed
qed

lemma output_dir_env:
  "output_dir cfg (rate_params env) = output_dir cfg (rate_params env')"
  "output_dir cfg (thickness_params env) = output_dir cfg (thickness_params env')"
  by (simp_all add: output_dir_def rate_params_def thickness_params_def)

lemma main_success_dirs:
  assumes m: "main env cfg w = (None, w1)"
  shows "path_join (output_base_dir cfg) (sediment_output_sub_dir cfg) \<in> paths w1 \<and>
         (generate_sedimentation_rate_grids cfg \<longrightarrow> output_dir cfg (rate_params env) \<in> paths w1) \<and>
         (generate_sediment_thickness_grids cfg \<longrightarrow> output_dir cfg (thickness_params env) \<in> paths w1)"
  using m
proof (cases rule: main_cases)
  case (modes dfmt ts w0 w2)
  from ensure_dir_result [OF modes(2)]
  have b: "path_join (output_base_dir cfg) (sediment_output_sub_dir cfg) \<in> paths w0" by simp
  have r: "paths w0 \<subseteq> paths w2 \<and>
           (generate_sedimentation_rate_grids cfg \<longrightarrow> output_dir cfg (rate_params env) \<in> paths w2)"
  proof (cases "generate_sedimentation_rate_grids cfg")
    case True
    with modes(4) have "run_mode env cfg dfmt ts (rate_params env) w0 = (None, w2)" by simp
    from run_mode_paths [OF this] show ?thesis by simp
  next
    case False
    with modes(4) show ?thesis by simp
  qed
  have t: "paths w2 \<subseteq> paths w1 \<and>
           (generate_sediment_thickness_grids cfg \<longrightarrow> output_dir cfg (thickness_params env) \<in> paths w1)"
  proof (cases "generate_sediment_thickness_grids cfg")
    case True
    with modes(5) have "run_mode env cfg dfmt ts (thickness_params env) w2 = (None, w1)" by simp
    from run_mode_paths [OF this] show ?thesis by simp
  next
    case False
    with modes(5) show ?thesis by simp
  qed
  from b r t show ?thesis by blast
qed simp_all

lemma main_exists:
  assumes b: "path_join (output_base_dir cfg) (sediment_output_sub_dir cfg) \<in> paths w"
    and dr: "generate_sedimentation_rate_grids cfg \<Longrightarrow> output_dir cfg (rate_params env) \<in> paths w"
    and dt: "generate_sediment_thickness_grids cfg \<Longrightarrow> output_dir cfg (thickness_params env) \<in> paths w"
    and m: "main env cfg w = (r, w1)"
  shows "paths w1 = paths w \<and> mkdirs w1 = mkdirs w"
  using m
proof (cases rule: main_cases)
  case (template_error e)
  then show ?thesis by simp
next
  case (dir_error e)
  with ensure_dir_exists [OF b, of env] show ?thesis by simp
next
  case (range_error e)
  with ensure_dir_exists [OF b, of env] show ?thesis by simp
next
  case (rate_error dfmt ts w0 e)
  from rate_error(2) ensure_dir_exists [OF b, of env] have w0: "w0 = w" by simp
  from run_mode_exists [OF rate_error(5)] dr [OF rate_error(4)] w0 show ?thesis by simp
next
  case (modes dfmt ts w0 w2)
  from modes(2) ensure_dir_exists [OF b, of env] have w0: "w0 = w" by simp
  have r: "paths w2 = paths w \<and> mkdirs w2 = mkdirs w"
  proof (cases "generate_sedimentation_rate_grids cfg")
    case True
    with modes(4) have "run_mode env cfg dfmt ts (rate_params env) w0 = (None, w2)" by simp
    from run_mode_exists [OF this] dr [OF True] w0 show ?thesis by simp
  next
    case False
    with modes(4) w0 show ?thesis by simp
  qed
  show ?thesis
  proof (cases "generate_sediment_thickness_grids cfg")
    case True
    with modes(5) have "run_mode env cfg dfmt ts (thickness_params env) w2 = (r, w1)" by simp
    from run_mode_exists [OF this] dt [OF True] r show ?thesis by simp
  next
    case False
    with modes(5) r show ?thesis by simp
  qed
qed

lemma rerun_frame:
  assumes "main env cfg w = (None, w1)"
  shows "paths (snd (main env2 cfg w1)) = paths w1 \<and> mkdirs (snd (main env2 cfg w1)) = mkdirs w1"
proof -
  note d = main_success_dirs [OF assms]
  obtain r2 w2 where m: "main env2 cfg w1 = (r2, w2)" by (cases "main env2 cfg w1")
  have "paths w2 = paths w1 \<and> mkdirs w2 = mkdirs w1"
    using d output_dir_env [of cfg env env2] by (intro main_exists [OF _ _ _ m]) simp_all
  with m show ?thesis by simp
qed

end
